theory Spec2Isabelle
  imports Complex_Main "HOL-Library.Char_ord" "HOL-Library.List_Lexorder" "HOL-Library.Sublist"
begin

section \<open>The host the toolkit runs on\<close>

text \<open>
  \<^verbatim>\<open>FileManager\<close> (src/automation\_toolkit.py) works on the host's file system through
  \<^verbatim>\<open>pathlib\<close>, \<^verbatim>\<open>os\<close> and \<^verbatim>\<open>shutil\<close> (CPython 3.11 on Linux). The file system is an ordered
  table from absolute paths to nodes; a path is the list of its components (\<^verbatim>\<open>Path.parts\<close>
  without the leading separator, so \<open>[]\<close> is \<^verbatim>\<open>/\<close>). The order of the table is the order in
  which the kernel lists entries, which Python leaves unspecified. Relative paths and symbolic
  links are not modelled.

  Every system call can fail. Two causes are fixed: a name longer than \<^verbatim>\<open>NAME_MAX\<close> or a
  path longer than \<^verbatim>\<open>PATH_MAX\<close> (\<^verbatim>\<open>ENAMETOOLONG\<close>), and the state of the table (no such
  entry, not a directory, directory not empty). Every other cause (permission bits and
  ownership of the caller, immutable flags, read-only mounts, I/O errors) is left to the
  \<open>kernel\<close> of the host: a function that, given the table and the call, says whether
  the call is refused and with which \<^verbatim>\<open>errno\<close>. A theorem that needs a call to go through
  says so in a hypothesis.
\<close>

type_synonym path = "string list"

record attrs =
  st_mode :: nat
  st_mtime :: real
  st_size :: nat

datatype node = File attrs | Dir attrs

type_synonym fs = "(path \<times> node) list"

datatype errno =
    ENOENT | ENOTDIR | EBADF | ELOOP | EACCES | EPERM | EEXIST | EISDIR | ENOTEMPTY
  | ENAMETOOLONG | EBUSY | EINVAL | EXDEV | EIO | ENOSPC | EROFS

text \<open>
  The exceptions of the modelled calls: \<^verbatim>\<open>OSError\<close> with its \<^verbatim>\<open>errno\<close> (Python's
  \<^verbatim>\<open>PermissionError\<close> is \<^verbatim>\<open>EACCES\<close> or \<^verbatim>\<open>EPERM\<close>, \<^verbatim>\<open>FileNotFoundError\<close> is \<^verbatim>\<open>ENOENT\<close>),
  \<^verbatim>\<open>shutil.Error\<close>, and the two that integer arguments can cause.
\<close>

datatype exn = OSError errno | ShutilError | OverflowError | ValueError

datatype syscall =
    Stat path
  | Scandir path
  | Unlink path
  | Rmdir path
  | Mkdir path
  | Rename path path
  | Chmod path
  | Copy path path

type_synonym kernel = "fs \<Rightarrow> syscall \<Rightarrow> errno option"

fun node_attrs :: "node \<Rightarrow> attrs" where
  "node_attrs (File a) = a"
| "node_attrs (Dir a) = a"

fun node_is_dir :: "node \<Rightarrow> bool" where
  "node_is_dir (Dir a) = True"
| "node_is_dir (File a) = False"

text \<open>The length of the path as the kernel sees it: a separator before every component.\<close>

definition path_len :: "path \<Rightarrow> nat" where
  "path_len p = sum_list (map (\<lambda>c. Suc (length c)) p)"

definition too_long :: "path \<Rightarrow> bool" where
  "too_long p = (4096 \<le> path_len p \<or> list_ex (\<lambda>c. 255 < length c) p)"

text \<open>How much longer a path can grow; the measure of the recursive walks.\<close>

definition room :: "path \<Rightarrow> nat" where
  "room p = 4096 - path_len p"

fun rooms :: "path list \<Rightarrow> nat" where
  "rooms [] = 0"
| "rooms (q # qs) = max (room q) (rooms qs)"

fun call_paths :: "syscall \<Rightarrow> path list" where
  "call_paths (Stat p) = [p]"
| "call_paths (Scandir p) = [p]"
| "call_paths (Unlink p) = [p]"
| "call_paths (Rmdir p) = [p]"
| "call_paths (Mkdir p) = [p]"
| "call_paths (Rename p q) = [p, q]"
| "call_paths (Chmod p) = [p]"
| "call_paths (Copy p q) = [p, q]"

definition fault :: "kernel \<Rightarrow> fs \<Rightarrow> syscall \<Rightarrow> errno option" where
  "fault K t c = (if list_ex too_long (call_paths c) then Some ENAMETOOLONG else K t c)"

text \<open>\<^verbatim>\<open>PurePath.name\<close> and \<^verbatim>\<open>PurePath.parent\<close>.\<close>

definition name_of :: "path \<Rightarrow> string" where
  "name_of p = (if p = [] then [] else last p)"

definition parent :: "path \<Rightarrow> path" where
  "parent p = butlast p"

definition is_child :: "path \<Rightarrow> path \<Rightarrow> bool" where
  "is_child d q = (q \<noteq> [] \<and> butlast q = d)"

definition children :: "fs \<Rightarrow> path \<Rightarrow> (path \<times> node) list" where
  "children t d = filter (\<lambda>e. is_child d (fst e)) t"

definition remove_entry :: "fs \<Rightarrow> path \<Rightarrow> fs" where
  "remove_entry t p = filter (\<lambda>e. fst e \<noteq> p) t"

subsection \<open>System calls\<close>

definition os_stat :: "kernel \<Rightarrow> fs \<Rightarrow> path \<Rightarrow> errno + node" where
  "os_stat K t p =
     (case fault K t (Stat p) of
        Some e \<Rightarrow> Inl e
      | None \<Rightarrow> (case map_of t p of None \<Rightarrow> Inl ENOENT | Some n \<Rightarrow> Inr n))"

text \<open>\<^verbatim>\<open>os.scandir\<close> and \<^verbatim>\<open>os.listdir\<close>: the entries of a directory, with their kind.\<close>

definition os_scandir :: "kernel \<Rightarrow> fs \<Rightarrow> path \<Rightarrow> errno + (path \<times> node) list" where
  "os_scandir K t d =
     (case fault K t (Scandir d) of
        Some e \<Rightarrow> Inl e
      | None \<Rightarrow>
          (case map_of t d of
             None \<Rightarrow> Inl ENOENT
           | Some (File a) \<Rightarrow> Inl ENOTDIR
           | Some (Dir a) \<Rightarrow> Inr (children t d)))"

definition os_unlink :: "kernel \<Rightarrow> fs \<Rightarrow> path \<Rightarrow> errno + fs" where
  "os_unlink K t p =
     (case fault K t (Unlink p) of
        Some e \<Rightarrow> Inl e
      | None \<Rightarrow>
          (case map_of t p of
             None \<Rightarrow> Inl ENOENT
           | Some (Dir a) \<Rightarrow> Inl EISDIR
           | Some (File a) \<Rightarrow> Inr (remove_entry t p)))"

text \<open>\<^verbatim>\<open>rmdir\<close> of \<^verbatim>\<open>/\<close> is refused with \<^verbatim>\<open>EBUSY\<close>.\<close>

definition os_rmdir :: "kernel \<Rightarrow> fs \<Rightarrow> path \<Rightarrow> errno + fs" where
  "os_rmdir K t p =
     (case fault K t (Rmdir p) of
        Some e \<Rightarrow> Inl e
      | None \<Rightarrow>
          if p = [] then Inl EBUSY
          else (case map_of t p of
             None \<Rightarrow> Inl ENOENT
           | Some (File a) \<Rightarrow> Inl ENOTDIR
           | Some (Dir a) \<Rightarrow>
               if children t p \<noteq> [] then Inl ENOTEMPTY else Inr (remove_entry t p)))"

fun set_mode :: "nat \<Rightarrow> node \<Rightarrow> node" where
  "set_mode m (File a) = File (a\<lparr>st_mode := m\<rparr>)"
| "set_mode m (Dir a) = Dir (a\<lparr>st_mode := m\<rparr>)"

text \<open>
  \<^verbatim>\<open>os.chmod(path, mode)\<close>: the mode must fit a C \<^verbatim>\<open>int\<close> (\<^verbatim>\<open>OverflowError\<close> otherwise); the
  kernel keeps its low twelve bits.
\<close>

definition os_chmod :: "kernel \<Rightarrow> fs \<Rightarrow> path \<Rightarrow> int \<Rightarrow> exn + fs" where
  "os_chmod K t p mode =
     (if mode < - 2147483648 \<or> 2147483647 < mode then Inl OverflowError
      else case fault K t (Chmod p) of
        Some e \<Rightarrow> Inl (OSError e)
      | None \<Rightarrow>
          (case map_of t p of
             None \<Rightarrow> Inl (OSError ENOENT)
           | Some n \<Rightarrow>
               Inr (map (\<lambda>e. if fst e = p then (p, set_mode (nat (mode mod 4096)) n) else e) t)))"

text \<open>
  \<^verbatim>\<open>os.mkdir\<close>. The attributes of the new directory (mode under the umask, time of
  creation) are those the host gives a fresh directory.
\<close>

definition os_mkdir :: "kernel \<Rightarrow> attrs \<Rightarrow> fs \<Rightarrow> path \<Rightarrow> errno + fs" where
  "os_mkdir K fresh t p =
     (case fault K t (Mkdir p) of
        Some e \<Rightarrow> Inl e
      | None \<Rightarrow>
          if map_of t p \<noteq> None then Inl EEXIST
          else (case map_of t (parent p) of
             None \<Rightarrow> Inl ENOENT
           | Some (File a) \<Rightarrow> Inl ENOTDIR
           | Some (Dir a) \<Rightarrow> if p = [] then Inl EEXIST else Inr (t @ [(p, Dir fresh)])))"

text \<open>
  \<^verbatim>\<open>os.rename\<close> of a regular file: a regular file at the destination is replaced. The
  toolkit renames only paths it has just seen to be regular files; a directory source is
  refused here.
\<close>

definition os_rename :: "kernel \<Rightarrow> fs \<Rightarrow> path \<Rightarrow> path \<Rightarrow> errno + fs" where
  "os_rename K t src dst =
     (case fault K t (Rename src dst) of
        Some e \<Rightarrow> Inl e
      | None \<Rightarrow>
          (case map_of t src of
             None \<Rightarrow> Inl ENOENT
           | Some (Dir a) \<Rightarrow> Inl EINVAL
           | Some (File a) \<Rightarrow>
               (case map_of t (parent dst) of
                  None \<Rightarrow> Inl ENOENT
                | Some (File b) \<Rightarrow> Inl ENOTDIR
                | Some (Dir b) \<Rightarrow>
                    if dst = [] then Inl EBUSY
                    else if src = dst then Inr t
                    else (case map_of t dst of
                       Some (Dir c) \<Rightarrow> Inl EISDIR
                     | _ \<Rightarrow> Inr (remove_entry (remove_entry t src) dst @ [(dst, File a)])))))"

text \<open>
  \<^verbatim>\<open>shutil.copy2\<close> of a regular file: the destination is created or overwritten with the
  content, mode and time stamps of the source.
\<close>

definition copy2 :: "kernel \<Rightarrow> fs \<Rightarrow> path \<Rightarrow> path \<Rightarrow> errno + fs" where
  "copy2 K t src dst =
     (case fault K t (Copy src dst) of
        Some e \<Rightarrow> Inl e
      | None \<Rightarrow>
          (case map_of t src of
             None \<Rightarrow> Inl ENOENT
           | Some (Dir a) \<Rightarrow> Inl EISDIR
           | Some (File a) \<Rightarrow>
               (case map_of t (parent dst) of
                  None \<Rightarrow> Inl ENOENT
                | Some (File b) \<Rightarrow> Inl ENOTDIR
                | Some (Dir b) \<Rightarrow>
                    (case map_of t dst of
                       Some (Dir c) \<Rightarrow> Inl EISDIR
                     | Some (File c) \<Rightarrow>
                         Inr (map (\<lambda>e. if fst e = dst then (dst, File a) else e) t)
                     | None \<Rightarrow> if dst = [] then Inl EISDIR else Inr (t @ [(dst, File a)])))))"

subsection \<open>pathlib\<close>

text \<open>\<^verbatim>\<open>_ignore_error\<close>: the errors \<^verbatim>\<open>exists\<close>, \<^verbatim>\<open>is_dir\<close> and \<^verbatim>\<open>is_file\<close> turn into \<^verbatim>\<open>False\<close>.\<close>

definition ignore_error :: "errno \<Rightarrow> bool" where
  "ignore_error e = (e = ENOENT \<or> e = ENOTDIR \<or> e = EBADF \<or> e = ELOOP)"

definition is_permission_error :: "errno \<Rightarrow> bool" where
  "is_permission_error e = (e = EACCES \<or> e = EPERM)"

definition path_exists :: "kernel \<Rightarrow> fs \<Rightarrow> path \<Rightarrow> exn + bool" where
  "path_exists K t p =
     (case os_stat K t p of
        Inr n \<Rightarrow> Inr True
      | Inl e \<Rightarrow> if ignore_error e then Inr False else Inl (OSError e))"

definition is_dir :: "kernel \<Rightarrow> fs \<Rightarrow> path \<Rightarrow> exn + bool" where
  "is_dir K t p =
     (case os_stat K t p of
        Inr n \<Rightarrow> Inr (node_is_dir n)
      | Inl e \<Rightarrow> if ignore_error e then Inr False else Inl (OSError e))"

definition is_file :: "kernel \<Rightarrow> fs \<Rightarrow> path \<Rightarrow> exn + bool" where
  "is_file K t p =
     (case os_stat K t p of
        Inr n \<Rightarrow> Inr (\<not> node_is_dir n)
      | Inl e \<Rightarrow> if ignore_error e then Inr False else Inl (OSError e))"

text \<open>\<^verbatim>\<open>os.path.isdir\<close> and \<^verbatim>\<open>os.path.exists\<close> never raise.\<close>

definition os_path_isdir :: "kernel \<Rightarrow> fs \<Rightarrow> path \<Rightarrow> bool" where
  "os_path_isdir K t p = (case os_stat K t p of Inr n \<Rightarrow> node_is_dir n | Inl e \<Rightarrow> False)"

definition os_path_exists :: "kernel \<Rightarrow> fs \<Rightarrow> path \<Rightarrow> bool" where
  "os_path_exists K t p = (case os_stat K t p of Inr n \<Rightarrow> True | Inl e \<Rightarrow> False)"

text \<open>
  The listing a selector of \<^verbatim>\<open>glob\<close> takes of a directory: \<^verbatim>\<open>PermissionError\<close> ends the
  selector without a word (no entries), any other error is raised.
\<close>

definition select_scandir :: "kernel \<Rightarrow> fs \<Rightarrow> path \<Rightarrow> exn + (path \<times> node) list" where
  "select_scandir K t d =
     (case os_scandir K t d of
        Inr es \<Rightarrow> Inr es
      | Inl e \<Rightarrow> if is_permission_error e then Inr [] else Inl (OSError e))"

text \<open>
  \<^verbatim>\<open>Path.glob('*')\<close>: nothing when the path is not a directory; else the entries directly
  inside it (hidden ones too), listed once before the first is handed out.
\<close>

definition glob_star :: "kernel \<Rightarrow> fs \<Rightarrow> path \<Rightarrow> exn + path list" where
  "glob_star K t d =
     (case is_dir K t d of
        Inl e \<Rightarrow> Inl e
      | Inr False \<Rightarrow> Inr []
      | Inr True \<Rightarrow>
          (case select_scandir K t d of Inl e \<Rightarrow> Inl e | Inr es \<Rightarrow> Inr (map fst es)))"

text \<open>
  Running a loop body over a list of paths. The body either finishes (\<open>Inr\<close>) or raises
  (\<open>Inl\<close>, with the state reached); a raise ends the loop.
\<close>

fun for_each :: "(path \<Rightarrow> 's \<Rightarrow> exn \<times> 's + 's) \<Rightarrow> path list \<Rightarrow> 's \<Rightarrow> exn \<times> 's + 's" where
  "for_each body [] s = Inr s"
| "for_each body (p # ps) s =
     (case body p s of Inl x \<Rightarrow> Inl x | Inr s' \<Rightarrow> for_each body ps s')"

text \<open>
  \<^verbatim>\<open>_RecursiveWildcardSelector._iterate_directories\<close> on a tree nobody changes meanwhile
  (the pattern \<^verbatim>\<open>'**'\<close>, consumed at once by \<^verbatim>\<open>sorted\<close>): the directory itself, then,
  for every directory the listing shows, the same below it. A listing refused with
  \<^verbatim>\<open>PermissionError\<close> ends that branch without a word; any other error is raised.
\<close>

function iterate_directories :: "kernel \<Rightarrow> fs \<Rightarrow> path \<Rightarrow> exn + path list"
  and iterate_entries :: "kernel \<Rightarrow> fs \<Rightarrow> path list \<Rightarrow> exn + path list" where
  "iterate_directories K t d =
     (case select_scandir K t d of
        Inl e \<Rightarrow> Inl e
      | Inr es \<Rightarrow>
          (case iterate_entries K t (map fst (filter (\<lambda>e. node_is_dir (snd e)) es)) of
             Inl e \<Rightarrow> Inl e
           | Inr ps \<Rightarrow> Inr (d # ps)))"
| "iterate_entries K t [] = Inr []"
| "iterate_entries K t (q # qs) =
     (case iterate_directories K t q of
        Inl e \<Rightarrow> Inl e
      | Inr ps \<Rightarrow>
          (case iterate_entries K t qs of Inl e \<Rightarrow> Inl e | Inr ps' \<Rightarrow> Inr (ps @ ps')))"
  by pat_completeness auto

text \<open>
  \<^verbatim>\<open>Path.rglob('.')\<close>: pathlib drops the \<^verbatim>\<open>'.'\<close> component, so the pattern is \<^verbatim>\<open>'**'\<close>:
  nothing when the path is not a directory, else the directory itself and every
  directory below it.
\<close>

definition rglob_dot :: "kernel \<Rightarrow> fs \<Rightarrow> path \<Rightarrow> exn + path list" where
  "rglob_dot K t d =
     (case is_dir K t d of
        Inl e \<Rightarrow> Inl e
      | Inr False \<Rightarrow> Inr []
      | Inr True \<Rightarrow> iterate_directories K t d)"

section \<open>The logger\<close>

text \<open>
  The toolkit writes every outcome to an injected \<^verbatim>\<open>logging.Logger\<close>. A log record is its
  level and its message; a message is kept as the format string's arguments.
\<close>

datatype log_level = DEBUG | INFO | WARNING | ERROR

datatype message =
    Starting_file_organization path
  | Source_directory_does_not_exist path
  | Organized string string
  | Failed_to_organize string exn
  | File_organization_failed exn
  | File_organization_complete nat nat
  | Cleaning_empty_directories path
  | Target_directory_does_not_exist path
  | Removed_empty_directory path
  | Could_not_remove path exn
  | Cleanup_failed exn
  | Cleanup_complete nat
  | Cleaning_files_older_than int path
  | Deleted_old_file path
  | Could_not_delete path exn
  | Old_file_cleanup_failed exn
  | Old_file_cleanup_complete nat nat
  | Changing_permissions path int
  | Target_does_not_exist path
  | Changed_permissions path
  | Could_not_change path exn
  | Changed_permissions_for path
  | Permission_change_failed exn
  | Searching_for_files_larger_than int path
  | Found_large_file string nat
  | Failed_to_search exn

type_synonym log = "(log_level \<times> message) list"

text \<open>
  The host: its file table, the log written so far, its kernel, and the attributes it
  gives a directory made now.
\<close>

record world =
  files :: fs
  logged :: log
  kernel :: kernel
  fresh :: attrs

definition log_to :: "log_level \<Rightarrow> message \<Rightarrow> world \<Rightarrow> world" where
  "log_to l m w = w\<lparr>logged := logged w @ [(l, m)]\<rparr>"

text \<open>What a call of a policy does: it returns its result or raises.\<close>

datatype 'a outcome = Returned 'a | Raised exn

text \<open>
  CPython 3.11 refuses to turn an integer of more than 4300 digits into decimal text
  (\<^verbatim>\<open>ValueError\<close>); this is what an f-string does with \<^verbatim>\<open>{days}\<close> and \<^verbatim>\<open>{size_mb}\<close>.
\<close>

definition str_limit :: int where
  "str_limit = 10 ^ 4300"

definition str_int_ok :: "int \<Rightarrow> bool" where
  "str_int_ok n = (\<bar>n\<bar> < str_limit)"

text \<open>\<^verbatim>\<open>float - int\<close>: the integer must round to a double (\<^verbatim>\<open>OverflowError\<close> otherwise).\<close>

definition float_limit :: int where
  "float_limit = 2 ^ 1024 - 2 ^ 970"

definition float_ok :: "int \<Rightarrow> bool" where
  "float_ok n = (\<bar>n\<bar> < float_limit)"

section \<open>The walk behind \<^verbatim>\<open>rglob('*')\<close>\<close>

text \<open>
  \<^verbatim>\<open>Path.rglob('*')\<close> is a generator, and the loop body of the policy runs between its
  steps. For the directory it stands at, the generator first lists it and hands out every
  entry (the body runs on each); then it lists the directory again, and walks in the same
  way every directory this second listing shows. Each listing is taken from the file
  system as the body has left it. A listing refused with \<^verbatim>\<open>PermissionError\<close> hands out
  nothing; any other error of a listing is raised in the loop.
\<close>

function rwalk ::
    "(path \<Rightarrow> 'r \<times> world \<Rightarrow> exn \<times> ('r \<times> world) + 'r \<times> world) \<Rightarrow> path \<Rightarrow> 'r \<times> world
       \<Rightarrow> exn \<times> ('r \<times> world) + 'r \<times> world"
  and rwalk_list ::
    "(path \<Rightarrow> 'r \<times> world \<Rightarrow> exn \<times> ('r \<times> world) + 'r \<times> world) \<Rightarrow> path list \<Rightarrow> 'r \<times> world
       \<Rightarrow> exn \<times> ('r \<times> world) + 'r \<times> world" where
  "rwalk body d s =
     (case select_scandir (kernel (snd s)) (files (snd s)) d of
        Inl e \<Rightarrow> Inl (e, s)
      | Inr es \<Rightarrow>
          (case for_each body (map fst es) s of
             Inl x \<Rightarrow> Inl x
           | Inr s1 \<Rightarrow>
               (case select_scandir (kernel (snd s1)) (files (snd s1)) d of
                  Inl e \<Rightarrow> Inl (e, s1)
                | Inr es2 \<Rightarrow>
                    rwalk_list body (map fst (filter (\<lambda>e. node_is_dir (snd e)) es2)) s1)))"
| "rwalk_list body [] s = Inr s"
| "rwalk_list body (q # qs) s =
     (case rwalk body q s of Inl x \<Rightarrow> Inl x | Inr s' \<Rightarrow> rwalk_list body qs s')"
  by pat_completeness auto

text \<open>The loop \<^verbatim>\<open>for p in target.rglob('*'): body\<close>, from the check \<^verbatim>\<open>select_from\<close> makes.\<close>

definition rglob_star_loop ::
  "(path \<Rightarrow> 'r \<times> world \<Rightarrow> exn \<times> ('r \<times> world) + 'r \<times> world) \<Rightarrow> path \<Rightarrow> 'r \<times> world
     \<Rightarrow> exn \<times> ('r \<times> world) + 'r \<times> world" where
  "rglob_star_loop body d s =
     (case is_dir (kernel (snd s)) (files (snd s)) d of
        Inl e \<Rightarrow> Inl (e, s)
      | Inr False \<Rightarrow> Inr s
      | Inr True \<Rightarrow> rwalk body d s)"

section \<open>organize\_by\_extension\<close>

record organize_results =
  organized :: nat
  errors :: nat
  details :: "(string \<times> string) list"

text \<open>
  \<^verbatim>\<open>PurePath.suffix\<close>: the part of the name from its last dot on, when that dot is neither
  the first nor the last character of the name; otherwise empty.
\<close>

definition rfind_dot :: "string \<Rightarrow> nat option" where
  "rfind_dot s =
     (case filter (\<lambda>i. s ! i = CHR ''.'') (rev [0..<length s]) of [] \<Rightarrow> None | i # _ \<Rightarrow> Some i)"

definition suffix :: "string \<Rightarrow> string" where
  "suffix s =
     (case rfind_dot s of
        None \<Rightarrow> []
      | Some i \<Rightarrow> if 0 < i \<and> i < length s - 1 then drop i s else [])"

text \<open>\<^verbatim>\<open>ext = file_path.suffix or 'no_extension'\<close> and \<^verbatim>\<open>ext.lstrip('.')\<close>.\<close>

definition ext_of :: "string \<Rightarrow> string" where
  "ext_of s = (if suffix s = [] then ''no_extension'' else suffix s)"

definition lstrip_dot :: "string \<Rightarrow> string" where
  "lstrip_dot s = dropWhile (\<lambda>c. c = CHR ''.'') s"

definition bucket :: "string \<Rightarrow> string" where
  "bucket s = lstrip_dot (ext_of s)"

text \<open>
  \<^verbatim>\<open>Path.mkdir(exist_ok=True)\<close>: \<^verbatim>\<open>FileNotFoundError\<close> is raised again (\<^verbatim>\<open>parents\<close> is
  false); any other error is swallowed when \<^verbatim>\<open>is_dir()\<close> says the path is a directory.
\<close>

definition mkdir_exist_ok :: "kernel \<Rightarrow> attrs \<Rightarrow> fs \<Rightarrow> path \<Rightarrow> exn + fs" where
  "mkdir_exist_ok K a t p =
     (case os_mkdir K a t p of
        Inr t' \<Rightarrow> Inr t'
      | Inl e \<Rightarrow>
          if e = ENOENT then Inl (OSError ENOENT)
          else (case is_dir K t p of
             Inl e' \<Rightarrow> Inl e'
           | Inr True \<Rightarrow> Inr t
           | Inr False \<Rightarrow> Inl (OSError e)))"

text \<open>
  \<^verbatim>\<open>shutil.move(src, dst)\<close> for a regular file \<^verbatim>\<open>src\<close>. When \<^verbatim>\<open>dst\<close> is a directory the file
  goes inside it, unless an entry of that name is there already. When \<^verbatim>\<open>os.rename\<close>
  fails the file is copied and the source unlinked; an error of the unlink leaves the copy
  behind, so the result is the error (if any) together with the table reached. The branch
  for a directory source (\<^verbatim>\<open>copytree\<close>) is not modelled: it hands the error back.
\<close>

definition move_file :: "kernel \<Rightarrow> fs \<Rightarrow> path \<Rightarrow> path \<Rightarrow> exn option \<times> fs" where
  "move_file K t src real_dst =
     (case os_rename K t src real_dst of
        Inr t' \<Rightarrow> (None, t')
      | Inl e \<Rightarrow>
          if os_path_isdir K t src then (Some (OSError e), t)
          else
            (case copy2 K t src real_dst of
               Inl e' \<Rightarrow> (Some (OSError e'), t)
             | Inr t' \<Rightarrow>
                 (case os_unlink K t' src of
                    Inl e'' \<Rightarrow> (Some (OSError e''), t')
                  | Inr t'' \<Rightarrow> (None, t''))))"

definition shutil_move :: "kernel \<Rightarrow> fs \<Rightarrow> path \<Rightarrow> path \<Rightarrow> exn option \<times> fs" where
  "shutil_move K t src dst =
     (if os_path_isdir K t dst then
        (if src = dst then
           (case os_rename K t src dst of
              Inl e \<Rightarrow> (Some (OSError e), t)
            | Inr t' \<Rightarrow> (None, t'))
         else if os_path_exists K t (dst @ [name_of src]) then (Some ShutilError, t)
         else move_file K t src (dst @ [name_of src]))
      else move_file K t src dst)"

text \<open>
  The body of the loop for one entry. \<^verbatim>\<open>is_file\<close> and \<^verbatim>\<open>mkdir\<close> stand outside the inner
  \<^verbatim>\<open>try\<close>: their error leaves the loop (\<open>Inl\<close>) and reaches the outer handler. An error
  of \<^verbatim>\<open>shutil.move\<close> is caught inside and the loop goes on.
\<close>

definition organize_entry ::
  "path \<Rightarrow> path \<Rightarrow> organize_results \<times> world \<Rightarrow> exn \<times> (organize_results \<times> world) + organize_results \<times> world" where
  "organize_entry source_path file_path s =
     (let (results, w) = s in
      case is_file (kernel w) (files w) file_path of
        Inl e \<Rightarrow> Inl (e, s)
      | Inr False \<Rightarrow> Inr s
      | Inr True \<Rightarrow>
          (let ext = ext_of (name_of file_path);
               ext_dir = source_path @ [lstrip_dot ext] in
           case mkdir_exist_ok (kernel w) (fresh w) (files w) ext_dir of
             Inl e \<Rightarrow> Inl (e, s)
           | Inr t \<Rightarrow>
               (case shutil_move (kernel w) t file_path (ext_dir @ [name_of file_path]) of
                  (None, t') \<Rightarrow>
                    Inr (results\<lparr>organized := organized results + 1,
                                 details := details results @ [(name_of file_path, ext)]\<rparr>,
                         log_to INFO (Organized (name_of file_path) ext) (w\<lparr>files := t'\<rparr>))
                | (Some e, t') \<Rightarrow>
                    Inr (results\<lparr>errors := errors results + 1\<rparr>,
                         log_to ERROR (Failed_to_organize (name_of file_path) e) (w\<lparr>files := t'\<rparr>)))))"

text \<open>
  The loop \<^verbatim>\<open>for file_path in source_path.glob('*')\<close>: the generator lists the directory
  when the loop asks for the first entry.
\<close>

definition organize_loop ::
  "path \<Rightarrow> organize_results \<times> world \<Rightarrow> exn \<times> (organize_results \<times> world) + organize_results \<times> world" where
  "organize_loop source_path s =
     (case glob_star (kernel (snd s)) (files (snd s)) source_path of
        Inl e \<Rightarrow> Inl (e, s)
      | Inr ps \<Rightarrow> for_each (organize_entry source_path) ps s)"

definition organize_by_extension :: "world \<Rightarrow> path \<Rightarrow> organize_results outcome \<times> world" where
  "organize_by_extension w0 source_dir =
     (let w = log_to INFO (Starting_file_organization source_dir) w0;
          results = \<lparr>organized = 0, errors = 0, details = []\<rparr> in
      case path_exists (kernel w) (files w) source_dir of
        Inl e \<Rightarrow> (Raised e, w)
      | Inr False \<Rightarrow> (Returned results, log_to ERROR (Source_directory_does_not_exist source_dir) w)
      | Inr True \<Rightarrow>
          (let (results', w') =
                 (case organize_loop source_dir (results, w) of
                    Inr s \<Rightarrow> s
                  | Inl (e, (r, w1)) \<Rightarrow>
                      (r\<lparr>errors := errors r + 1\<rparr>, log_to ERROR (File_organization_failed e) w1))
           in (Returned results',
               log_to INFO (File_organization_complete (organized results') (errors results')) w')))"

section \<open>cleanup\_empty\_dirs\<close>

record cleanup_results =
  removed :: nat
  errors :: nat

text \<open>
  The body of the loop for one directory. \<^verbatim>\<open>is_dir()\<close> and \<^verbatim>\<open>iterdir()\<close> stand outside
  the inner \<^verbatim>\<open>try\<close>: their error leaves the loop. \<^verbatim>\<open>iterdir\<close> is \<^verbatim>\<open>os.listdir\<close>, which
  raises on every error, \<^verbatim>\<open>PermissionError\<close> too.
\<close>

definition cleanup_dir ::
  "path \<Rightarrow> cleanup_results \<times> world \<Rightarrow> exn \<times> (cleanup_results \<times> world) + cleanup_results \<times> world" where
  "cleanup_dir dir_path s =
     (let (results, w) = s in
      case is_dir (kernel w) (files w) dir_path of
        Inl e \<Rightarrow> Inl (e, s)
      | Inr False \<Rightarrow> Inr s
      | Inr True \<Rightarrow>
          (case os_scandir (kernel w) (files w) dir_path of
             Inl e \<Rightarrow> Inl (OSError e, s)
           | Inr es \<Rightarrow>
               if es = [] then
                 (case os_rmdir (kernel w) (files w) dir_path of
                    Inr t \<Rightarrow>
                      Inr (results\<lparr>removed := removed results + 1\<rparr>,
                           log_to INFO (Removed_empty_directory dir_path) (w\<lparr>files := t\<rparr>))
                  | Inl e \<Rightarrow>
                      Inr (results\<lparr>errors := errors results + 1\<rparr>,
                           log_to WARNING (Could_not_remove dir_path (OSError e)) w))
               else Inr s))"

text \<open>
  Paths compare as the lists of their components, components as strings by code point
  (\<^verbatim>\<open>PurePath.__lt__\<close>); this is the lexicographic order of \<^typ>\<open>string list\<close>.
\<close>

definition sorted_reverse :: "path list \<Rightarrow> path list" where
  "sorted_reverse ps = rev (sort ps)"

text \<open>
  The loop \<^verbatim>\<open>for dir_path in sorted(target_path.rglob('.'), reverse=True)\<close>: \<^verbatim>\<open>sorted\<close>
  runs the generator to its end before the first directory is handled.
\<close>

definition cleanup_loop ::
  "path \<Rightarrow> cleanup_results \<times> world \<Rightarrow> exn \<times> (cleanup_results \<times> world) + cleanup_results \<times> world" where
  "cleanup_loop target_path s =
     (case rglob_dot (kernel (snd s)) (files (snd s)) target_path of
        Inl e \<Rightarrow> Inl (e, s)
      | Inr ps \<Rightarrow> for_each cleanup_dir (sorted_reverse ps) s)"

definition cleanup_empty_dirs :: "world \<Rightarrow> path \<Rightarrow> bool \<Rightarrow> cleanup_results outcome \<times> world" where
  "cleanup_empty_dirs w0 target_dir recursive =
     (let w = log_to INFO (Cleaning_empty_directories target_dir) w0;
          results = \<lparr>removed = 0, errors = 0\<rparr> in
      case path_exists (kernel w) (files w) target_dir of
        Inl e \<Rightarrow> (Raised e, w)
      | Inr False \<Rightarrow> (Returned results, log_to ERROR (Target_directory_does_not_exist target_dir) w)
      | Inr True \<Rightarrow>
          (let (results', w') =
                 (if recursive then
                    (case cleanup_loop target_dir (results, w) of
                       Inr s \<Rightarrow> s
                     | Inl (e, (r, w1)) \<Rightarrow>
                         (r\<lparr>errors := errors r + 1\<rparr>, log_to ERROR (Cleanup_failed e) w1))
                  else (results, w))
           in (Returned results', log_to INFO (Cleanup_complete (removed results')) w')))"

section \<open>cleanup\_old\_files\<close>

record old_files_results =
  deleted :: nat
  errors :: nat
  details :: "string list"

text \<open>
  The body of the loop for one entry. \<^verbatim>\<open>is_file()\<close> and \<^verbatim>\<open>stat()\<close> stand outside the
  inner \<^verbatim>\<open>try\<close>: their error leaves the loop.
\<close>

definition cleanup_old_entry ::
  "real \<Rightarrow> path \<Rightarrow> old_files_results \<times> world \<Rightarrow> exn \<times> (old_files_results \<times> world) + old_files_results \<times> world" where
  "cleanup_old_entry cutoff_time file_path s =
     (let (results, w) = s in
      case is_file (kernel w) (files w) file_path of
        Inl e \<Rightarrow> Inl (e, s)
      | Inr False \<Rightarrow> Inr s
      | Inr True \<Rightarrow>
          (case os_stat (kernel w) (files w) file_path of
             Inl e \<Rightarrow> Inl (OSError e, s)
           | Inr n \<Rightarrow>
               if st_mtime (node_attrs n) < cutoff_time then
                 (case os_unlink (kernel w) (files w) file_path of
                    Inr t \<Rightarrow>
                      Inr (results\<lparr>deleted := deleted results + 1,
                                   details := details results @ [name_of file_path]\<rparr>,
                           log_to INFO (Deleted_old_file file_path) (w\<lparr>files := t\<rparr>))
                  | Inl e \<Rightarrow>
                      Inr (results\<lparr>errors := errors results + 1\<rparr>,
                           log_to WARNING (Could_not_delete file_path (OSError e)) w))
               else Inr s))"

text \<open>
  \<open>now\<close> is the value \<^verbatim>\<open>time.time()\<close> returns in this call. The first log line formats
  \<^verbatim>\<open>days\<close>, and \<^verbatim>\<open>cutoff_time\<close> is computed before the existence check, both outside the
  \<^verbatim>\<open>try\<close>. The subtraction is exact here, where Python rounds to a double.
\<close>

definition cleanup_old_files :: "real \<Rightarrow> world \<Rightarrow> path \<Rightarrow> int \<Rightarrow> old_files_results outcome \<times> world" where
  "cleanup_old_files now w0 target_dir days =
     (if \<not> str_int_ok days then (Raised ValueError, w0)
      else
        (let w = log_to INFO (Cleaning_files_older_than days target_dir) w0;
             results = \<lparr>deleted = 0, errors = 0, details = []\<rparr> in
         if \<not> float_ok (days * 86400) then (Raised OverflowError, w)
         else
           (let cutoff_time = now - real_of_int (days * 86400) in
            case path_exists (kernel w) (files w) target_dir of
              Inl e \<Rightarrow> (Raised e, w)
            | Inr False \<Rightarrow>
                (Returned results, log_to ERROR (Target_directory_does_not_exist target_dir) w)
            | Inr True \<Rightarrow>
                (let (results', w') =
                       (case rglob_star_loop (cleanup_old_entry cutoff_time) target_dir (results, w) of
                          Inr s \<Rightarrow> s
                        | Inl (e, (r, w1)) \<Rightarrow>
                            (r\<lparr>errors := errors r + 1\<rparr>, log_to ERROR (Old_file_cleanup_failed e) w1))
                 in (Returned results',
                     log_to INFO (Old_file_cleanup_complete (deleted results') (errors results')) w')))))"

section \<open>change\_permissions\<close>

record permission_results =
  changed :: nat
  errors :: nat

text \<open>The body of the recursive loop: everything is inside the inner \<^verbatim>\<open>try\<close>.\<close>

definition chmod_item ::
  "int \<Rightarrow> path \<Rightarrow> permission_results \<times> world \<Rightarrow> exn \<times> (permission_results \<times> world) + permission_results \<times> world" where
  "chmod_item mode item s =
     (let (results, w) = s in
      case os_chmod (kernel w) (files w) item mode of
        Inr t \<Rightarrow>
          Inr (results\<lparr>changed := changed results + 1\<rparr>,
               log_to DEBUG (Changed_permissions item) (w\<lparr>files := t\<rparr>))
      | Inl e \<Rightarrow>
          Inr (results\<lparr>errors := errors results + 1\<rparr>,
               log_to WARNING (Could_not_change item e) w))"

text \<open>
  The \<^verbatim>\<open>try\<close> block: \<^verbatim>\<open>target.is_dir()\<close> is asked only when \<^verbatim>\<open>recursive\<close> is true; the
  recursive branch never touches the target itself.
\<close>

definition change_permissions_body ::
  "path \<Rightarrow> int \<Rightarrow> bool \<Rightarrow> permission_results \<times> world \<Rightarrow> exn \<times> (permission_results \<times> world) + permission_results \<times> world" where
  "change_permissions_body target mode recursive s =
     (let (results, w) = s in
      case (if recursive then is_dir (kernel w) (files w) target else Inr False) of
        Inl e \<Rightarrow> Inl (e, s)
      | Inr True \<Rightarrow> rglob_star_loop (chmod_item mode) target s
      | Inr False \<Rightarrow>
          (case os_chmod (kernel w) (files w) target mode of
             Inl e \<Rightarrow> Inl (e, s)
           | Inr t \<Rightarrow>
               Inr (results\<lparr>changed := changed results + 1\<rparr>,
                    log_to INFO (Changed_permissions_for target) (w\<lparr>files := t\<rparr>))))"

definition change_permissions :: "world \<Rightarrow> path \<Rightarrow> int \<Rightarrow> bool \<Rightarrow> permission_results outcome \<times> world" where
  "change_permissions w0 target_path mode recursive =
     (let w = log_to INFO (Changing_permissions target_path mode) w0;
          results = \<lparr>changed = 0, errors = 0\<rparr> in
      case path_exists (kernel w) (files w) target_path of
        Inl e \<Rightarrow> (Raised e, w)
      | Inr False \<Rightarrow> (Returned results, log_to ERROR (Target_does_not_exist target_path) w)
      | Inr True \<Rightarrow>
          (case change_permissions_body target_path mode recursive (results, w) of
             Inr (r, w1) \<Rightarrow> (Returned r, w1)
           | Inl (e, (r, w1)) \<Rightarrow>
               (Returned (r\<lparr>errors := errors r + 1\<rparr>), log_to ERROR (Permission_change_failed e) w1)))"

section \<open>find\_large\_files\<close>

record large_file =
  path :: "string list"
  size_mb :: real

text \<open>
  \<^verbatim>\<open>round(x, 2)\<close> on the exact quotient: the multiple of \<open>1/100\<close> nearest to \<open>x\<close>, a tie
  going to the even multiple. Python returns the double nearest to this decimal; the
  quotient \<^verbatim>\<open>file_size / (1024 * 1024)\<close> is itself exact for sizes below \<open>2^53\<close> bytes.
\<close>

definition round_half_even :: "real \<Rightarrow> int" where
  "round_half_even x =
     (let f = \<lfloor>x\<rfloor>; d = x - real_of_int f in
      if d < 1 / 2 then f else if 1 / 2 < d then f + 1 else if even f then f else f + 1)"

definition round2 :: "real \<Rightarrow> real" where
  "round2 x = real_of_int (round_half_even (x * 100)) / 100"

definition find_large_entry ::
  "int \<Rightarrow> path \<Rightarrow> large_file list \<times> world \<Rightarrow> exn \<times> (large_file list \<times> world) + large_file list \<times> world" where
  "find_large_entry size_bytes file_path s =
     (let (large_files, w) = s in
      case is_file (kernel w) (files w) file_path of
        Inl e \<Rightarrow> Inl (e, s)
      | Inr False \<Rightarrow> Inr s
      | Inr True \<Rightarrow>
          (case os_stat (kernel w) (files w) file_path of
             Inl e \<Rightarrow> Inl (OSError e, s)
           | Inr n \<Rightarrow>
               if int (st_size (node_attrs n)) > size_bytes then
                 Inr (large_files @
                        [\<lparr>path = file_path,
                          size_mb = round2 (real (st_size (node_attrs n)) / (1024 * 1024))\<rparr>],
                      log_to INFO (Found_large_file (name_of file_path) (st_size (node_attrs n))) w)
               else Inr s))"

text \<open>The first log line formats \<^verbatim>\<open>size_mb\<close> outside the \<^verbatim>\<open>try\<close>; there is no existence check.\<close>

definition find_large_files :: "world \<Rightarrow> path \<Rightarrow> int \<Rightarrow> large_file list outcome \<times> world" where
  "find_large_files w0 target_dir threshold_mb =
     (if \<not> str_int_ok threshold_mb then (Raised ValueError, w0)
      else
        (let w = log_to INFO (Searching_for_files_larger_than threshold_mb target_dir) w0;
             size_bytes = threshold_mb * 1024 * 1024 in
         case rglob_star_loop (find_large_entry size_bytes) target_dir ([], w) of
           Inr (found, w') \<Rightarrow> (Returned found, w')
         | Inl (e, (found, w1)) \<Rightarrow> (Returned found, log_to ERROR (Failed_to_search e) w1)))"

section \<open>Concrete hosts\<close>

text \<open>A kernel that refuses nothing: the superuser on a healthy file system.\<close>

definition no_faults :: kernel where
  "no_faults = (\<lambda>t c. None)"

definition dir755 :: node where
  "dir755 = Dir \<lparr>st_mode = 493, st_mtime = 1000, st_size = 4096\<rparr>"

definition file644 :: node where
  "file644 = File \<lparr>st_mode = 420, st_mtime = 1000, st_size = 10\<rparr>"

definition host :: world where
  "host = \<lparr>files = [([], dir755), ([''srv''], dir755)], logged = [], kernel = no_faults,
           fresh = \<lparr>st_mode = 493, st_mtime = 2000, st_size = 4096\<rparr>\<rparr>"


section \<open>The walks end\<close>

lemma path_len_snoc: "path_len (d @ [c]) = path_len d + Suc (length c)"
  by (simp add: path_len_def)

lemma is_child_path_len: "is_child d q \<Longrightarrow> path_len d < path_len q"
proof -
  assume "is_child d q"
  then have "q = d @ [last q]"
    by (auto simp: is_child_def)
  then have "path_len q = path_len d + Suc (length (last q))"
    by (metis path_len_snoc)
  then show ?thesis by simp
qed

lemma select_scandir_room:
  assumes "select_scandir K t d = Inr es"
  shows "path_len d < 4096" and "\<forall>e\<in>set es. path_len d < path_len (fst e)"
proof -
  have nl: "\<not> too_long d"
    using assms
    by (auto simp: select_scandir_def os_scandir_def fault_def is_permission_error_def
        split: sum.splits option.splits if_splits)
  then show "path_len d < 4096"
    by (simp add: too_long_def)
  show "\<forall>e\<in>set es. path_len d < path_len (fst e)"
  proof
    fix e assume "e \<in> set es"
    with assms have "is_child d (fst e)"
      by (auto simp: select_scandir_def os_scandir_def children_def
          split: sum.splits option.splits if_splits node.splits)
    then show "path_len d < path_len (fst e)"
      by (rule is_child_path_len)
  qed
qed

lemma rooms_less:
  "path_len d < 4096 \<Longrightarrow> \<forall>q\<in>set qs. path_len d < path_len q \<Longrightarrow> rooms qs < room d"
  by (induction qs) (auto simp: room_def)

lemma rooms_of_listing:
  assumes "select_scandir K t d = Inr es"
  shows "rooms (map fst (filter P es)) < room d"
  using select_scandir_room [OF assms] by (intro rooms_less) auto

termination iterate_directories
proof (relation "inv_image (less_than <*lex*> less_than)
    (\<lambda>x. case x of Inl (K, t, d) \<Rightarrow> (2 * room d + 1, 0 :: nat)
                  | Inr (K, t, qs) \<Rightarrow> (2 * rooms qs + 2, length qs))", goal_cases)
  case 1
  show ?case by (intro wf_inv_image wf_lex_prod wf_less_than)
next
  case (2 K t d es)
  then show ?case
    using rooms_of_listing [of K t d es "\<lambda>e. node_is_dir (snd e)"] by simp
next
  case (3 K t q qs)
  show ?case by (simp add: max_def)
next
  case (4 K t q qs)
  then show ?case by (simp add: max_def)
qed

termination rwalk
proof (relation "inv_image (less_than <*lex*> less_than)
    (\<lambda>x. case x of Inl (body, d, s) \<Rightarrow> (2 * room d + 1, 0 :: nat)
                  | Inr (body, qs, s) \<Rightarrow> (2 * rooms qs + 2, length qs))", goal_cases)
  case 1
  show ?case by (intro wf_inv_image wf_lex_prod wf_less_than)
next
  case (2 body d s es s1 es2)
  then show ?case
    using rooms_of_listing [of "kernel (snd s1)" "files (snd s1)" d es2 "\<lambda>e. node_is_dir (snd e)"]
    by simp
next
  case (3 body q qs s)
  show ?case by (simp add: max_def)
next
  case (4 body q qs s)
  then show ?case by (simp add: max_def)
qed

section \<open>A root that does not exist\<close>

lemma files_log_to [simp]: "files (log_to l m w) = files w"
  by (simp add: log_to_def)

lemma kernel_log_to [simp]: "kernel (log_to l m w) = kernel w"
  by (simp add: log_to_def)

lemma fresh_log_to [simp]: "fresh (log_to l m w) = fresh w"
  by (simp add: log_to_def)

lemma logged_log_to [simp]: "logged (log_to l m w) = logged w @ [(l, m)]"
  by (simp add: log_to_def)

lemma log_to_eq: "log_to l m w = w\<lparr>logged := logged w @ [(l, m)]\<rparr>"
  by (simp add: log_to_def)

lemma float_limit_le_str_limit: "float_limit \<le> str_limit"
proof -
  have "(2 :: int) ^ 1024 \<le> 10 ^ 1024"
    by (rule power_mono) simp_all
  also have "(10 :: int) ^ 1024 \<le> 10 ^ 4300"
    by (rule power_increasing) simp_all
  finally have "(2 :: int) ^ 1024 \<le> str_limit"
    unfolding str_limit_def .
  moreover have "float_limit \<le> 2 ^ 1024"
    by (simp add: float_limit_def)
  ultimately show ?thesis by (rule order_trans [rotated])
qed

lemma float_ok_str_int_ok: "float_ok (days * 86400) \<Longrightarrow> str_int_ok days"
proof -
  assume "float_ok (days * 86400)"
  then have "\<bar>days\<bar> * 86400 < float_limit"
    by (simp add: float_ok_def abs_mult)
  moreover have "\<bar>days\<bar> \<le> \<bar>days\<bar> * 86400"
    by simp
  ultimately have "\<bar>days\<bar> < str_limit"
    using float_limit_le_str_limit by linarith
  then show ?thesis
    by (simp add: str_int_ok_def)
qed


lemma missing_is_no_dir:
  "path_exists K t p = Inr False \<Longrightarrow> is_dir K t p = Inr False"
  by (auto simp: path_exists_def is_dir_def split: sum.splits if_splits)








text \<open>
  C1 (as the code has it). Where \<^verbatim>\<open>exists()\<close> answers \<^verbatim>\<open>False\<close> for the root, none of
  the five operations raises or returns an error. The four mutating policies log one
  \<open>ERROR\<close> record and return their fresh result, every counter zero;
  \<^verbatim>\<open>find_large_files\<close> has no existence check at all and returns the empty list, \<^verbatim>\<open>rglob\<close>
  of a missing path handing out nothing. No entry is processed and the file system is left
  as found. (The integers must be such that the first log line can be written and the
  cutoff computed.)
\<close>

theorem missing_root_returns_empty_result:
  assumes "path_exists (kernel w) (files w) p = Inr False"
    and "float_ok (days * 86400)" and "str_int_ok threshold_mb"
  shows "organize_by_extension w p =
           (Returned \<lparr>organized = 0, errors = 0, details = []\<rparr>,
            w\<lparr>logged := logged w @ [(INFO, Starting_file_organization p),
                                      (ERROR, Source_directory_does_not_exist p)]\<rparr>)
       \<and> cleanup_empty_dirs w p recursive =
           (Returned \<lparr>removed = 0, errors = 0\<rparr>,
            w\<lparr>logged := logged w @ [(INFO, Cleaning_empty_directories p),
                                      (ERROR, Target_directory_does_not_exist p)]\<rparr>)
       \<and> cleanup_old_files now w p days =
           (Returned \<lparr>deleted = 0, errors = 0, details = []\<rparr>,
            w\<lparr>logged := logged w @ [(INFO, Cleaning_files_older_than days p),
                                      (ERROR, Target_directory_does_not_exist p)]\<rparr>)
       \<and> change_permissions w p mode recursive =
           (Returned \<lparr>changed = 0, errors = 0\<rparr>,
            w\<lparr>logged := logged w @ [(INFO, Changing_permissions p mode),
                                      (ERROR, Target_does_not_exist p)]\<rparr>)
       \<and> find_large_files w p threshold_mb =
           (Returned [],
            w\<lparr>logged := logged w @ [(INFO, Searching_for_files_larger_than threshold_mb p)]\<rparr>)"
  using assms float_ok_str_int_ok [OF assms(2)] missing_is_no_dir [OF assms(1)]
  by (simp add: organize_by_extension_def cleanup_empty_dirs_def cleanup_old_files_def
      change_permissions_def find_large_files_def rglob_star_loop_def Let_def log_to_eq)

theorem missing_root_returns_empty_result_witness:
  "path_exists (kernel host) (files host) [''srv'', ''inbox''] = Inr False
   \<and> float_ok (30 * 86400) \<and> str_int_ok 100
   \<and> organize_by_extension host [''srv'', ''inbox''] =
        (Returned \<lparr>organized = 0, errors = 0, details = []\<rparr>,
         host\<lparr>logged := logged host @ [(INFO, Starting_file_organization [''srv'', ''inbox'']),
                                         (ERROR, Source_directory_does_not_exist [''srv'', ''inbox''])]\<rparr>)
   \<and> find_large_files host [''srv'', ''inbox''] 100 =
        (Returned [],
         host\<lparr>logged := logged host @
                    [(INFO, Searching_for_files_larger_than 100 [''srv'', ''inbox''])]\<rparr>)"
proof -
  have missing: "path_exists (kernel host) (files host) [''srv'', ''inbox''] = Inr False"
    by (simp add: host_def path_exists_def os_stat_def fault_def too_long_def path_len_def
        no_faults_def ignore_error_def)
  have days: "float_ok (30 * 86400)"
    by (simp add: float_ok_def float_limit_def)
  have mb: "str_int_ok 100"
    using float_ok_str_int_ok [of 100] by (simp add: float_ok_def float_limit_def)
  show ?thesis
    using missing days mb
      missing_root_returns_empty_result [OF missing days mb, where recursive = True
        and now = 5000000 and mode = 448]
    by simp
qed

text \<open>
  C1 as stated fails: on the missing path \<^verbatim>\<open>/srv/inbox\<close> every policy returns normally with
  \<^verbatim>\<open>errors\<close> zero, the very result it returns on the existing empty directory \<^verbatim>\<open>/srv\<close>, and
  \<^verbatim>\<open>find_large_files\<close> does not even log an error.
\<close>

theorem missing_root_not_an_error_counterexample:
  "fst (organize_by_extension host [''srv'', ''inbox'']) = Returned \<lparr>organized = 0, errors = 0, details = []\<rparr>
   \<and> fst (organize_by_extension host [''srv'']) = Returned \<lparr>organized = 0, errors = 0, details = []\<rparr>
   \<and> fst (cleanup_empty_dirs host [''srv'', ''inbox''] True) = Returned \<lparr>removed = 0, errors = 0\<rparr>
   \<and> fst (cleanup_old_files 5000000 host [''srv'', ''inbox''] 30) = Returned \<lparr>deleted = 0, errors = 0, details = []\<rparr>
   \<and> fst (change_permissions host [''srv'', ''inbox''] 448 False) = Returned \<lparr>changed = 0, errors = 0\<rparr>
   \<and> fst (find_large_files host [''srv'', ''inbox''] 100) = Returned []
   \<and> logged (snd (find_large_files host [''srv'', ''inbox''] 100)) =
        [(INFO, Searching_for_files_larger_than 100 [''srv'', ''inbox''])]"
proof -
  have short: "\<not> too_long [''srv'', ''inbox'']" "\<not> too_long [''srv'']"
    by (simp_all add: too_long_def path_len_def)
  have missing: "path_exists no_faults (files host) [''srv'', ''inbox''] = Inr False"
    using short by (simp add: host_def path_exists_def os_stat_def fault_def no_faults_def ignore_error_def)
  have nodir: "is_dir no_faults (files host) [''srv'', ''inbox''] = Inr False"
    using missing by (rule missing_is_no_dir)
  have there: "path_exists no_faults (files host) [''srv''] = Inr True"
    using short by (simp add: host_def path_exists_def os_stat_def fault_def no_faults_def)
  have k: "kernel host = no_faults" "logged host = []"
    by (simp_all add: host_def)
  have mb: "str_int_ok 100" "str_int_ok 30" "float_ok (30 * 86400)"
    using float_ok_str_int_ok [of 100] float_ok_str_int_ok [of 30]
    by (simp_all add: float_ok_def float_limit_def)
  have "fst (organize_by_extension host [''srv'']) = Returned \<lparr>organized = 0, errors = 0, details = []\<rparr>"
    using short there k
    by (simp add: organize_by_extension_def organize_loop_def glob_star_def is_dir_def
        select_scandir_def os_scandir_def os_stat_def fault_def no_faults_def children_def
        is_child_def Let_def host_def dir755_def)
  then show ?thesis
    using missing nodir k mb
    by (simp add: organize_by_extension_def cleanup_empty_dirs_def cleanup_old_files_def
        change_permissions_def find_large_files_def rglob_star_loop_def Let_def)
qed

end
